theory Spec2Isabelle
  imports Main "HOL-Library.Sublist"
begin

section \<open>Text, exceptions and paths\<close>

text \<open>
  The integration agent (\<^verbatim>\<open>src/integration/try-04-testing.py\<close>, and its sibling
  \<^verbatim>\<open>try-03-testing.py\<close>, whose tool, indexer and startup code is the same line for
  line) is Python. Python strings are modelled as \<open>string\<close>, a raised exception as a value
  carrying its class name and its \<^verbatim>\<open>str(e)\<close>.
\<close>

datatype exn = Exception string string

fun exn_class :: "exn \<Rightarrow> string" where
  "exn_class (Exception c m) = c"

fun exn_str :: "exn \<Rightarrow> string" where
  "exn_str (Exception c m) = m"

definition newline :: string where
  "newline = [CHR 0x0A]"

text \<open>\<^verbatim>\<open>str(n)\<close> of an integer, as an f-string prints a return code.\<close>

definition digit_char :: "nat \<Rightarrow> char" where
  "digit_char d = ''0123456789'' ! (d mod 10)"

function str_nat :: "nat \<Rightarrow> string" where
  "str_nat n = (if n < 10 then [digit_char n] else str_nat (n div 10) @ [digit_char (n mod 10)])"
  by pat_completeness auto
termination
  by (relation "measure id") auto

declare str_nat.simps [simp del]

definition str_int :: "int \<Rightarrow> string" where
  "str_int i = (if i < 0 then CHR ''-'' # str_nat (nat (- i)) else str_nat (nat i))"

text \<open>
  \<^verbatim>\<open>os.path.join(a, b)\<close> of \<^verbatim>\<open>posixpath\<close>, for the two arguments the tools give it:
  \<^verbatim>\<open>
  path = a
  if b.startswith(sep):            path = b
  elif not path or path.endswith(sep): path += b
  else:                            path += sep + b
  \<close>
  The first argument is what \<^verbatim>\<open>os.getenv("PROJECT_PATH")\<close> returned: \<^verbatim>\<open>None\<close> when the
  variable is unset, and then \<^verbatim>\<open>os.fspath(None)\<close> raises \<^verbatim>\<open>TypeError\<close> (the wording of
  its message is that of one Python version; no statement below depends on it).
\<close>

definition startswith_sep :: "string \<Rightarrow> bool" where
  "startswith_sep b = (case b of [] \<Rightarrow> False | c # _ \<Rightarrow> c = CHR ''/'')"

definition endswith_sep :: "string \<Rightarrow> bool" where
  "endswith_sep a = (a \<noteq> [] \<and> last a = CHR ''/'')"

definition posix_join :: "string \<Rightarrow> string \<Rightarrow> string" where
  "posix_join a b =
     (if startswith_sep b then b
      else if a = [] \<or> endswith_sep a then a @ b
      else a @ ''/'' @ b)"

definition fspath_TypeError :: exn where
  "fspath_TypeError =
     Exception ''TypeError'' ''expected str, bytes or os.PathLike object, not NoneType''"

definition os_path_join :: "string option \<Rightarrow> string \<Rightarrow> exn + string" where
  "os_path_join a b = (case a of None \<Rightarrow> Inl fspath_TypeError | Some p \<Rightarrow> Inr (posix_join p b))"

text \<open>
  \<^verbatim>\<open>os.path.dirname(p)\<close> of \<^verbatim>\<open>posixpath\<close>: everything up to the last separator, with the
  trailing separators of that head stripped unless the head is separators only.
\<close>

fun rstrip_sep :: "string \<Rightarrow> string" where
  "rstrip_sep s = rev (dropWhile (\<lambda>c. c = CHR ''/'') (rev s))"

definition dirname :: "string \<Rightarrow> string" where
  "dirname p =
     (let head = rev (dropWhile (\<lambda>c. c \<noteq> CHR ''/'') (rev p))
      in if head \<noteq> [] \<and> \<not> list_all (\<lambda>c. c = CHR ''/'') head then rstrip_sep head else head)"

section \<open>The operating system the tools talk to\<close>

text \<open>
  What the file system and a child process answer is not the program's to decide, so it is
  a parameter: one answer per call, keyed by the arguments of the call. A process either
  exits after some seconds with a return code and its two output streams, never exits,
  or cannot be run at all (for instance \<^verbatim>\<open>cwd\<close> is not a directory, or its output
  is not text in the locale's encoding): \<^verbatim>\<open>subprocess.run\<close> then raises something that is
  not a \<^verbatim>\<open>CalledProcessError\<close>.
\<close>

datatype process = Exits nat int string string | Never_exits | Cannot_run exn

record os_env =
  PROJECT_PATH :: "string option"
  fs_read :: "string \<Rightarrow> exn + string"
  fs_makedirs :: "string \<Rightarrow> exn option"
  fs_write :: "string \<Rightarrow> string \<Rightarrow> exn option"
  fs_listdir :: "string \<Rightarrow> exn + string list"
  shell :: "string \<Rightarrow> string \<Rightarrow> process"

text \<open>
  \<^verbatim>\<open>subprocess.run(command, cwd=..., check=..., capture_output=True, text=True,
  shell=True, timeout=...)\<close>. It waits for the child; only a \<^verbatim>\<open>timeout\<close> argument makes it
  give up (\<^verbatim>\<open>TimeoutExpired\<close>), and \<^verbatim>\<open>check=True\<close> turns a non-zero return code into
  \<^verbatim>\<open>CalledProcessError\<close>.
\<close>

datatype run_outcome =
    CompletedProcess int string string
  | CalledProcessError int string string
  | TimeoutExpired
  | Raised exn
  | No_return

definition completed :: "bool \<Rightarrow> int \<Rightarrow> string \<Rightarrow> string \<Rightarrow> run_outcome" where
  "completed check rc out err =
     (if check \<and> rc \<noteq> 0 then CalledProcessError rc out err else CompletedProcess rc out err)"

definition subprocess_run ::
  "os_env \<Rightarrow> string \<Rightarrow> string \<Rightarrow> bool \<Rightarrow> nat option \<Rightarrow> run_outcome" where
  "subprocess_run env command cwd check timeout =
     (case shell env command cwd of
        Cannot_run e \<Rightarrow> Raised e
      | Never_exits \<Rightarrow> (case timeout of None \<Rightarrow> No_return | Some t \<Rightarrow> TimeoutExpired)
      | Exits d rc out err \<Rightarrow>
          (case timeout of
             None \<Rightarrow> completed check rc out err
           | Some t \<Rightarrow> if t < d then TimeoutExpired else completed check rc out err))"

section \<open>The tools\<close>

text \<open>
  A tool call returns a string, lets an exception through to its caller, or does not
  come back.
\<close>

datatype tool_result = Returns string | Raises exn | Blocks

text \<open>
  \<^verbatim>\<open>read_file\<close>, \<^verbatim>\<open>write_file\<close> and \<^verbatim>\<open>list_directory\<close>: the whole body, the join included,
  stands in \<^verbatim>\<open>try: ... except Exception as e: return f"Error ...: {e}"\<close>.
\<close>

definition read_file :: "os_env \<Rightarrow> string \<Rightarrow> tool_result" where
  "read_file env file_path =
     (case os_path_join (PROJECT_PATH env) file_path of
        Inl e \<Rightarrow> Returns (''Error reading file '' @ file_path @ '': '' @ exn_str e)
      | Inr absolute_path \<Rightarrow>
          (case fs_read env absolute_path of
             Inl e \<Rightarrow> Returns (''Error reading file '' @ file_path @ '': '' @ exn_str e)
           | Inr content \<Rightarrow> Returns content))"

definition write_file :: "os_env \<Rightarrow> string \<Rightarrow> string \<Rightarrow> tool_result" where
  "write_file env file_path content =
     (case os_path_join (PROJECT_PATH env) file_path of
        Inl e \<Rightarrow> Returns (''Error writing to file '' @ file_path @ '': '' @ exn_str e)
      | Inr absolute_path \<Rightarrow>
          (case fs_makedirs env (dirname absolute_path) of
             Some e \<Rightarrow> Returns (''Error writing to file '' @ file_path @ '': '' @ exn_str e)
           | None \<Rightarrow>
               (case fs_write env absolute_path content of
                  Some e \<Rightarrow> Returns (''Error writing to file '' @ file_path @ '': '' @ exn_str e)
                | None \<Rightarrow> Returns (''Successfully wrote to '' @ absolute_path @ ''.''))))"

fun join_lines :: "string list \<Rightarrow> string" where
  "join_lines [] = []"
| "join_lines [x] = x"
| "join_lines (x # y # ys) = x @ newline @ join_lines (y # ys)"

definition list_directory :: "os_env \<Rightarrow> string \<Rightarrow> tool_result" where
  "list_directory env path =
     (case os_path_join (PROJECT_PATH env) path of
        Inl e \<Rightarrow> Returns (''Error listing directory '' @ path @ '': '' @ exn_str e)
      | Inr absolute_path \<Rightarrow>
          (case fs_listdir env absolute_path of
             Inl e \<Rightarrow> Returns (''Error listing directory '' @ path @ '': '' @ exn_str e)
           | Inr files \<Rightarrow> Returns (join_lines files)))"

text \<open>
  \<^verbatim>\<open>run_shell_command\<close>: the guard on an unset or empty \<^verbatim>\<open>PROJECT_PATH\<close>, then
  \<^verbatim>\<open>subprocess.run(command, cwd=project_path, check=True, capture_output=True, text=True,
  shell=True)\<close> with no \<^verbatim>\<open>timeout\<close>, under \<^verbatim>\<open>except subprocess.CalledProcessError\<close> only.
\<close>

definition success_header :: string where
  "success_header = ''Command executed successfully. Output:'' @ newline"

definition failure_report :: "int \<Rightarrow> string \<Rightarrow> string \<Rightarrow> string" where
  "failure_report returncode stderr stdout =
     ''Command failed with exit code '' @ str_int returncode @ ''. Stderr:'' @ newline
       @ stderr @ newline @ ''Stdout:'' @ newline @ stdout"

definition timeout_exn :: exn where
  "timeout_exn = Exception ''TimeoutExpired'' ''Command timed out''"

definition run_shell_command :: "os_env \<Rightarrow> string \<Rightarrow> tool_result" where
  "run_shell_command env command =
     (case PROJECT_PATH env of
        None \<Rightarrow> Returns ''Error: PROJECT_PATH is not set in the .env file.''
      | Some project_path \<Rightarrow>
          if project_path = [] then Returns ''Error: PROJECT_PATH is not set in the .env file.''
          else
            (case subprocess_run env command project_path True None of
               CompletedProcess rc out err \<Rightarrow> Returns (success_header @ out)
             | CalledProcessError rc out err \<Rightarrow> Returns (failure_report rc err out)
             | TimeoutExpired \<Rightarrow> Raises timeout_exn
             | Raised e \<Rightarrow> Raises e
             | No_return \<Rightarrow> Blocks))"

definition validate_typescript_code :: "os_env \<Rightarrow> tool_result" where
  "validate_typescript_code env = run_shell_command env ''npx tsc --noEmit''"

text \<open>
  How a reader of the result tells the two reports of \<^verbatim>\<open>run_shell_command\<close> apart: by
  the words the source puts first.
\<close>

definition reports_pass :: "tool_result \<Rightarrow> bool" where
  "reports_pass r =
     (case r of Returns s \<Rightarrow> prefix ''Command executed successfully.'' s | _ \<Rightarrow> False)"

definition reports_fail :: "tool_result \<Rightarrow> bool" where
  "reports_fail r =
     (case r of Returns s \<Rightarrow> prefix ''Command failed with exit code '' s | _ \<Rightarrow> False)"

section \<open>Startup\<close>

text \<open>
  The head of \<^verbatim>\<open>main\<close>, up to the line that prints the start banner. The process
  environment is a map from variable names to values; \<^verbatim>\<open>os.getenv\<close> is its lookup.
  \<^verbatim>\<open>
  project_path_str = os.getenv("PROJECT_PATH")
  schema_path_str = os.getenv("SCHEMA_JSON_PATH")
  if not all([project_path_str, os.getenv("GEMINI_API_KEY")]):
      print("Error: Please set PROJECT_PATH and GEMINI_API_KEY in your .env file.")
      return
  project_path = pathlib.Path(project_path_str)
  schema_path = pathlib.Path(schema_path_str)
  \<close>
  Both \<^verbatim>\<open>Path(...)\<close> calls stand before the only \<^verbatim>\<open>try\<close> of \<^verbatim>\<open>main\<close>, which opens
  after the agent has been built. \<open>Configured\<close> is the one outcome after which \<^verbatim>\<open>main\<close>
  goes on to build the index and to run the loop.
\<close>

type_synonym environ = "string \<Rightarrow> string option"

definition truthy :: "string option \<Rightarrow> bool" where
  "truthy v = (case v of None \<Rightarrow> False | Some s \<Rightarrow> s \<noteq> [])"

definition pathlib_Path :: "string option \<Rightarrow> exn + string" where
  "pathlib_Path a = (case a of None \<Rightarrow> Inl fspath_TypeError | Some s \<Rightarrow> Inr s)"

datatype startup = Configuration_error_exit | Uncaught exn | Configured string string

definition main_startup :: "environ \<Rightarrow> startup" where
  "main_startup getenv =
     (let project_path_str = getenv ''PROJECT_PATH'';
          schema_path_str = getenv ''SCHEMA_JSON_PATH''
      in if \<not> (truthy project_path_str \<and> truthy (getenv ''GEMINI_API_KEY''))
         then Configuration_error_exit
         else
           (case pathlib_Path project_path_str of
              Inl e \<Rightarrow> Uncaught e
            | Inr project_path \<Rightarrow>
                (case pathlib_Path schema_path_str of
                   Inl e \<Rightarrow> Uncaught e
                 | Inr schema_path \<Rightarrow> Configured project_path schema_path)))"

section \<open>The code indexer\<close>

text \<open>
  A path is the list of its parts, as \<^verbatim>\<open>pathlib.Path(...).parts\<close> gives them. A source
  tree is the list of the regular files under the project root: for each its path relative
  to the root, and its text when \<^verbatim>\<open>TextLoader\<close> can read it (\<open>None\<close> when it cannot; the
  loader is built with \<^verbatim>\<open>silent_errors=True\<close> and skips such a file).
\<close>

type_synonym tree = "(string list \<times> string option) list"

record document =
  source :: "string list"
  page_content :: string

record chunk =
  chunk_source :: "string list"
  chunk_text :: string

text \<open>
  \<^verbatim>\<open>pathlib\<close> matches one name against one pattern part as \<^verbatim>\<open>fnmatch\<close> does: \<^verbatim>\<open>*\<close> is any
  run of characters, \<^verbatim>\<open>?\<close> any one character, and every other character stands for itself.
  Braces and commas are such other characters: \<^verbatim>\<open>pathlib\<close> has no brace expansion.
  (Bracket classes are left out: the pattern of the source has none.)
\<close>

fun fnmatch :: "string \<Rightarrow> string \<Rightarrow> bool" where
  "fnmatch [] [] = True"
| "fnmatch (c # cs) [] = False"
| "fnmatch [] (p # ps) = (p = CHR ''*'' \<and> fnmatch [] ps)"
| "fnmatch (c # cs) (p # ps) =
     (if p = CHR ''*'' then fnmatch (c # cs) ps \<or> fnmatch cs (p # ps)
      else if p = CHR ''?'' then fnmatch cs ps
      else c = p \<and> fnmatch cs ps)"

text \<open>
  A relative path against the parts of a pattern: \<^verbatim>\<open>**\<close> stands for any number of
  directories, every other part for one name.
\<close>

fun glob_parts :: "string list \<Rightarrow> string list \<Rightarrow> bool" where
  "glob_parts [] [] = True"
| "glob_parts [] (x # xs) = False"
| "glob_parts (p # ps) [] = (p = ''**'' \<and> glob_parts ps [])"
| "glob_parts (p # ps) (x # xs) =
     (if p = ''**'' then glob_parts ps (x # xs) \<or> glob_parts (p # ps) xs
      else fnmatch x p \<and> glob_parts ps xs)"

fun split_sep :: "string \<Rightarrow> string list" where
  "split_sep [] = [[]]"
| "split_sep (c # cs) =
     (if c = CHR ''/'' then [] # split_sep cs
      else (case split_sep cs of [] \<Rightarrow> [[c]] | x # xs \<Rightarrow> (c # x) # xs))"

text \<open>
  \<^verbatim>\<open>DirectoryLoader(root, glob=..., loader_cls=TextLoader, silent_errors=True).load()\<close>:
  the files \<^verbatim>\<open>Path(root).glob(glob)\<close> finds, but for those with a part that starts with
  a dot (\<^verbatim>\<open>load_hidden\<close> is off) and those the text loader cannot read.
\<close>

definition is_visible :: "string list \<Rightarrow> bool" where
  "is_visible parts = (\<not> list_ex (\<lambda>part. prefix ''.'' part) parts)"

definition load_file :: "string list \<Rightarrow> string \<Rightarrow> string list \<times> string option \<Rightarrow> document option" where
  "load_file root glob item =
     (case snd item of
        None \<Rightarrow> None
      | Some content \<Rightarrow>
          if glob_parts (split_sep glob) (fst item) \<and> is_visible (fst item)
          then Some \<lparr>source = root @ fst item, page_content = content\<rparr>
          else None)"

definition DirectoryLoader_load :: "string list \<Rightarrow> string \<Rightarrow> tree \<Rightarrow> document list" where
  "DirectoryLoader_load root glob files = List.map_filter (load_file root glob) files"

text \<open>
  The scan of \<^verbatim>\<open>index_project\<close>: the loader with the pattern of the source, then the
  filter \<^verbatim>\<open>'node_modules' not in pathlib.Path(doc.metadata['source']).parts\<close>.
\<close>

definition scan :: "string list \<Rightarrow> tree \<Rightarrow> document list" where
  "scan root files =
     (let all_documents = DirectoryLoader_load root ''**/*.{ts,tsx}'' files
      in filter (\<lambda>doc. ''node_modules'' \<notin> set (source doc)) all_documents)"

text \<open>
  \<^verbatim>\<open>split_documents\<close> cuts each document on its own and gives every piece the metadata of
  its document. How a text is cut (the TypeScript splitter, 1000 characters with an
  overlap of 100) is a parameter.
\<close>

definition split_documents :: "(string \<Rightarrow> string list) \<Rightarrow> document list \<Rightarrow> chunk list" where
  "split_documents split_text docs =
     concat (map (\<lambda>d. map (\<lambda>t. \<lparr>chunk_source = source d, chunk_text = t\<rparr>)
                          (split_text (page_content d))) docs)"

text \<open>
  The indexer object. Its \<open>vector_store\<close> is the collection of the Chroma object it holds,
  as the list of chunks in it. \<^verbatim>\<open>__init__\<close> opens \<^verbatim>\<open>Chroma(persist_directory=...)\<close> on the
  directory \<^verbatim>\<open>.agent_vector_store\<close> beside the project: the collection persisted there.
\<close>

record code_indexer =
  project_path :: "string list"
  vector_store :: "chunk list"

definition CodeIndexer :: "string list \<Rightarrow> chunk list \<Rightarrow> code_indexer" where
  "CodeIndexer root persisted = \<lparr>project_path = root, vector_store = persisted\<rparr>"

datatype message =
    Indexing_from "string list"
  | No_documents_warning
  | Found_files_and_chunks nat nat
  | Storing_embeddings
  | Indexing_complete

text \<open>
  \<^verbatim>\<open>index_project\<close>. What \<^verbatim>\<open>Chroma.from_documents(chunks, embeddings, persist_directory=...)\<close>
  makes of the new chunks and of the collection already persisted in that directory is
  the library's to decide, and a parameter here. The method returns the object as it has
  become and the lines it printed.
\<close>

definition index_project ::
  "(chunk list \<Rightarrow> chunk list \<Rightarrow> chunk list) \<Rightarrow> (string \<Rightarrow> string list) \<Rightarrow> tree \<Rightarrow>
   code_indexer \<Rightarrow> code_indexer \<times> message list" where
  "index_project from_documents split_text files self =
     (let documents = scan (project_path self) files
      in if documents = [] then (self, [Indexing_from (project_path self), No_documents_warning])
         else
           (let chunks = split_documents split_text documents
            in (self\<lparr>vector_store := from_documents chunks (vector_store self)\<rparr>,
                [Indexing_from (project_path self),
                 Found_files_and_chunks (length documents) (length chunks),
                 Storing_embeddings, Indexing_complete])))"

text \<open>
  Modelled from the spec: \<^verbatim>\<open>retrieve(query, k)\<close> of section 4.1, the at most \<open>k\<close> stored
  chunks nearest to the query, by ascending embedding distance; it gives a list for every
  store, the empty list on an empty store. The search itself is the Chroma library's,
  whose code is not under \<^verbatim>\<open>src/\<close>; how far a chunk is from a query is a parameter.
\<close>

definition retrieve :: "(string \<Rightarrow> chunk \<Rightarrow> nat) \<Rightarrow> chunk list \<Rightarrow> string \<Rightarrow> nat \<Rightarrow> chunk list" where
  "retrieve distance store query k = take k (sort_key (distance query) store)"

text \<open>
  \<^verbatim>\<open>get_retriever\<close>: \<^verbatim>\<open>self.vector_store.as_retriever(search_kwargs={"k": 5})\<close>, the
  search of the object's store for the five nearest chunks.
\<close>

definition get_retriever ::
  "(string \<Rightarrow> chunk \<Rightarrow> nat) \<Rightarrow> code_indexer \<Rightarrow> string \<Rightarrow> chunk list" where
  "get_retriever distance self query = retrieve distance (vector_store self) query 5"

text \<open>
  One run of the program up to the retriever: the constructor on what the store directory
  holds, then \<^verbatim>\<open>index_project\<close>. The result is what the store holds afterwards.
\<close>

definition index_run ::
  "(chunk list \<Rightarrow> chunk list \<Rightarrow> chunk list) \<Rightarrow> (string \<Rightarrow> string list) \<Rightarrow> string list \<Rightarrow>
   tree \<Rightarrow> chunk list \<Rightarrow> chunk list" where
  "index_run from_documents split_text root files persisted =
     vector_store (fst (index_project from_documents split_text files (CodeIndexer root persisted)))"

section \<open>The agent loop\<close>

text \<open>
  The source builds the loop as \<^verbatim>\<open>AgentExecutor(agent=agent, tools=tools, verbose=True,
  handle_parsing_errors=True, max_iterations=15000)\<close> and calls its \<^verbatim>\<open>invoke\<close>; the
  executor itself is the langchain library's and is not part of the repository's files.
  What the source fixes is its configuration.
\<close>

record executor_config =
  handle_parsing_errors :: bool
  max_iterations :: nat

definition agent_executor :: executor_config where
  "agent_executor = \<lparr>handle_parsing_errors = True, max_iterations = 15000\<rparr>"

text \<open>
  Modelled from the spec: the action protocol of section 6 and the inference errors of
  section 7. The policy answers with one structured action (a tool name and its input),
  with the terminal final answer, or with text that is no valid action; or the inference
  call fails for good, its retries used up. The executor's code is not under \<^verbatim>\<open>src/\<close>.
\<close>

datatype policy_output =
    Tool_action string string
  | Final_answer string
  | Malformed string
  | Inference_failure string


text \<open>
  Modelled from the spec: a transcript entry of section 3, without its ordinal (the
  position in the list) and its time stamp: the action name, the action input and the
  observation. The executor's code is not under \<^verbatim>\<open>src/\<close>.
\<close>

type_synonym entry = "string \<times> string \<times> string"

text \<open>
  Modelled from the spec: the two ways section 4.3 lets a run reach \<open>DONE\<close>, an explicit
  terminal action or the iteration budget used up, the latter a recorded partial
  completion. The executor's code is not under \<^verbatim>\<open>src/\<close>.
\<close>

datatype ending = Final_output string | Partial_completion

text \<open>
  Modelled from the spec: the states of the machine of section 4.3,
  \<^verbatim>\<open>PLANNING -> EXECUTING -> OBSERVING -> (PLANNING | DONE | ERROR)\<close>. \<open>EXECUTING\<close> holds the
  action chosen, \<open>OBSERVING\<close> the entry about to be appended, \<open>DONE\<close> how the run ended,
  \<open>ERROR\<close> the text of what aborted it. The executor's code is not under \<^verbatim>\<open>src/\<close>.
\<close>

datatype phase =
    PLANNING
  | EXECUTING string string
  | OBSERVING entry
  | DONE ending
  | ERROR string

text \<open>
  Modelled from the spec: the state of a run, its phase and the append-only transcript
  of section 3. The executor's code is not under \<^verbatim>\<open>src/\<close>.
\<close>

record loop_state =
  phase :: phase
  transcript :: "entry list"

text \<open>
  Modelled from the spec: \<open>DONE\<close> and \<open>ERROR\<close> are the states section 4.3 gives no
  successor. The executor's code is not under \<^verbatim>\<open>src/\<close>.
\<close>

fun halted :: "phase \<Rightarrow> bool" where
  "halted (DONE e) = True"
| "halted (ERROR m) = True"
| "halted p = False"

text \<open>
  Modelled from the spec: the corrective observation of section 4.3 for policy output
  that does not parse. The executor's code is not under \<^verbatim>\<open>src/\<close>.
\<close>

definition corrective_observation :: string where
  "corrective_observation = ''could not parse your action; respond with a valid action''"

text \<open>
  Modelled from the spec: section 7 turns everything that happens during the loop into
  transcript text, so an action that names no tool of the capability set is observed as
  such. The executor's code is not under \<^verbatim>\<open>src/\<close>.
\<close>

definition invalid_tool_observation :: "string \<Rightarrow> string" where
  "invalid_tool_observation name = name @ '' is not a valid tool''"

text \<open>
  Modelled from the spec: one transition of the machine of section 4.3, \<open>None\<close> where
  there is none because the machine waits for ever. \<open>PLANNING\<close> asks the policy, given the
  transcript so far; policy output that does not parse becomes a corrective observation
  when the executor handles parsing errors, as the source configures it, and an inference
  call that has failed for good aborts the run (section 7). \<open>EXECUTING\<close> dispatches the
  tool, one call in flight and the loop blocked on its result (section 5): what the tool
  returns is the observation; a tool that does not come back leaves the machine in
  \<open>EXECUTING\<close> for ever; an exception a tool lets through leaves the executor too and
  ends the run, \<^verbatim>\<open>main\<close> reporting it in its \<^verbatim>\<open>except Exception\<close> clause. \<open>OBSERVING\<close> appends
  the entry and returns to \<open>PLANNING\<close> unless the iteration budget is reached, the length of
  the transcript being the iteration counter. The executor's code is not under \<^verbatim>\<open>src/\<close>.
\<close>

definition step ::
  "executor_config \<Rightarrow> (entry list \<Rightarrow> policy_output) \<Rightarrow> (string \<Rightarrow> (string \<Rightarrow> tool_result) option) \<Rightarrow>
   loop_state \<Rightarrow> loop_state option" where
  "step cfg policy tools s =
     (case phase s of
        PLANNING \<Rightarrow>
          (case policy (transcript s) of
             Tool_action name input \<Rightarrow> Some (s\<lparr>phase := EXECUTING name input\<rparr>)
           | Final_answer out \<Rightarrow> Some (s\<lparr>phase := DONE (Final_output out)\<rparr>)
           | Malformed txt \<Rightarrow>
               if handle_parsing_errors cfg
               then Some (s\<lparr>phase := OBSERVING (''_Exception'', txt, corrective_observation)\<rparr>)
               else Some (s\<lparr>phase := ERROR txt\<rparr>)
           | Inference_failure m \<Rightarrow> Some (s\<lparr>phase := ERROR m\<rparr>))
      | EXECUTING name input \<Rightarrow>
          (case tools name of
             None \<Rightarrow> Some (s\<lparr>phase := OBSERVING (name, input, invalid_tool_observation name)\<rparr>)
           | Some f \<Rightarrow>
               (case f input of
                  Returns observation \<Rightarrow> Some (s\<lparr>phase := OBSERVING (name, input, observation)\<rparr>)
                | Raises e \<Rightarrow> Some (s\<lparr>phase := ERROR (exn_str e)\<rparr>)
                | Blocks \<Rightarrow> None))
      | OBSERVING e \<Rightarrow>
          (if Suc (length (transcript s)) < max_iterations cfg
           then Some \<lparr>phase = PLANNING, transcript = transcript s @ [e]\<rparr>
           else Some \<lparr>phase = DONE Partial_completion, transcript = transcript s @ [e]\<rparr>)
      | DONE e \<Rightarrow> Some s
      | ERROR m \<Rightarrow> Some s)"

text \<open>
  How far a phase is from the end of its iteration, for the termination of the loop.
\<close>

fun rank :: "phase \<Rightarrow> nat" where
  "rank PLANNING = 3"
| "rank (EXECUTING n i) = 2"
| "rank (OBSERVING e) = 1"
| "rank (DONE e) = 0"
| "rank (ERROR m) = 0"

text \<open>
  Modelled from the spec: the loop of section 4.3, the transitions repeated until \<open>DONE\<close>
  or \<open>ERROR\<close>; the result is the state the run ends in, \<open>None\<close> when it does not end
  because a tool call never comes back. Each transition brings the run nearer to its end:
  within an iteration by the rank of the phase, from one iteration to the next by the
  budget that is left. The executor's code is not under \<^verbatim>\<open>src/\<close>.
\<close>

function run ::
  "executor_config \<Rightarrow> (entry list \<Rightarrow> policy_output) \<Rightarrow> (string \<Rightarrow> (string \<Rightarrow> tool_result) option) \<Rightarrow>
   loop_state \<Rightarrow> loop_state option" where
  "run cfg policy tools s =
     (if halted (phase s) then Some s
      else (case step cfg policy tools s of
              None \<Rightarrow> None
            | Some s' \<Rightarrow> run cfg policy tools s'))"
  by pat_completeness auto
termination
proof (relation "measure (\<lambda>(cfg, policy, tools, s).
    3 * (max_iterations cfg - length (transcript s)) + rank (phase s))")
  show "wf (measure (\<lambda>(cfg, policy, tools, s).
    3 * (max_iterations cfg - length (transcript s)) + rank (phase s)))"
    by simp
next
  fix cfg :: executor_config and policy :: "entry list \<Rightarrow> policy_output"
    and tools :: "string \<Rightarrow> (string \<Rightarrow> tool_result) option" and s s' :: loop_state
  assume "\<not> halted (phase s)" and "step cfg policy tools s = Some s'"
  then show "((cfg, policy, tools, s'), (cfg, policy, tools, s))
    \<in> measure (\<lambda>(cfg, policy, tools, s).
        3 * (max_iterations cfg - length (transcript s)) + rank (phase s))"
    by (cases "phase s")
       (auto simp: step_def split: policy_output.splits option.splits tool_result.splits
          if_splits)
qed

declare run.simps [simp del]

text \<open>
  Modelled from the spec: a run starts in \<open>PLANNING\<close> on an empty transcript. The
  executor's code is not under \<^verbatim>\<open>src/\<close>.
\<close>

definition invoke ::
  "executor_config \<Rightarrow> (entry list \<Rightarrow> policy_output) \<Rightarrow> (string \<Rightarrow> (string \<Rightarrow> tool_result) option) \<Rightarrow>
   loop_state option" where
  "invoke cfg policy tools = run cfg policy tools \<lparr>phase = PLANNING, transcript = []\<rparr>"

section \<open>Concrete inputs\<close>

text \<open>
  A project at \<^verbatim>\<open>/home/dev/site\<close> on a machine whose \<^verbatim>\<open>/etc\<close> holds two files. The type
  checker exits with status 0 after printing a line, \<^verbatim>\<open>npm run dev\<close> starts a server that
  never exits, \<^verbatim>\<open>cat\<close> of an image prints bytes that are no text, and any other command
  is unknown to the shell.
\<close>

definition no_such_file :: "string \<Rightarrow> exn" where
  "no_such_file p = Exception ''FileNotFoundError'' (''[Errno 2] No such file or directory: '' @ p)"

definition site_env :: os_env where
  "site_env =
     \<lparr>PROJECT_PATH = Some ''/home/dev/site'',
      fs_read = (\<lambda>p. if p = ''/etc/hostname'' then Inr ''build-01'' else Inl (no_such_file p)),
      fs_makedirs = (\<lambda>d. None),
      fs_write = (\<lambda>p c. None),
      fs_listdir = (\<lambda>p. if p = ''/etc'' then Inr [''hostname'', ''passwd''] else Inl (no_such_file p)),
      shell = (\<lambda>command cwd.
        if cwd \<noteq> ''/home/dev/site'' then Cannot_run (no_such_file cwd)
        else if command = ''npx tsc --noEmit'' then Exits 4 0 ''src/app/page.tsx: note'' []
        else if command = ''npm run dev'' then Never_exits
        else if command = ''cat public/img/logo.png''
          then Cannot_run (Exception ''UnicodeDecodeError'' ''invalid start byte'')
        else Exits 1 127 [] ''sh: 1: command not found'')\<rparr>"

definition site_environ :: environ where
  "site_environ =
     [''PROJECT_PATH'' \<mapsto> ''/home/dev/site'', ''GEMINI_API_KEY'' \<mapsto> ''key-123'']"

text \<open>
  Patterns without \<^verbatim>\<open>*\<close> and \<^verbatim>\<open>?\<close>, for the lemmas on \<open>fnmatch\<close>.
\<close>

definition wildcard_free :: "string \<Rightarrow> bool" where
  "wildcard_free pat = list_all (\<lambda>c. c \<noteq> CHR ''*'' \<and> c \<noteq> CHR ''?'') pat"

text \<open>
  The project's tree: two TypeScript sources of the application and one inside
  \<^verbatim>\<open>node_modules\<close>. A second tree holds one file whose name ends in the eleven characters
  \<^verbatim>\<open>.{ts,tsx}\<close> themselves. For the library's parameters: a store constructor that keeps
  the new chunks only, a splitter that keeps a text whole, and a distance that has every
  chunk as near to every query as any other.
\<close>

definition site_root :: "string list" where
  "site_root = [''/'', ''home'', ''dev'', ''site'']"

definition site_tree :: tree where
  "site_tree =
     [([''src'', ''app'', ''page.tsx''], Some ''export default function Page() { return null }''),
      ([''src'', ''lib'', ''contentstackClient.ts''], Some ''export const stack = 1''),
      ([''node_modules'', ''swiper'', ''index.ts''], Some ''export {}'')]"

definition brace_tree :: tree where
  "brace_tree = [([''legacy.{ts,tsx}''], Some ''export const a = 1'')]"

definition replacing :: "chunk list \<Rightarrow> chunk list \<Rightarrow> chunk list" where
  "replacing chunks persisted = chunks"

definition whole_text :: "string \<Rightarrow> string list" where
  "whole_text t = [t]"

definition flat_distance :: "string \<Rightarrow> chunk \<Rightarrow> nat" where
  "flat_distance query c = 0"

definition legacy_chunk :: chunk where
  "legacy_chunk = \<lparr>chunk_source = site_root @ [''legacy.{ts,tsx}''], chunk_text = ''export const a = 1''\<rparr>"


definition no_tools :: "string \<Rightarrow> (string \<Rightarrow> tool_result) option" where
  "no_tools name = None"


definition retry_policy :: "entry list \<Rightarrow> policy_output" where
  "retry_policy ts = (if ts = [] then Malformed ''I will read the schema first.''
                      else Final_answer ''The mission is accomplished.'')"


definition babbling_policy :: "entry list \<Rightarrow> policy_output" where
  "babbling_policy ts = Malformed ''Let me think.''"

definition babble :: entry where
  "babble = (''_Exception'', ''Let me think.'', corrective_observation)"







section \<open>The tools: paths\<close>

lemma os_path_join_absolute: "startswith_sep p \<Longrightarrow> os_path_join (Some root) p = Inr p"
  by (simp add: os_path_join_def posix_join_def)

text \<open>
  C9. When the path argument is absolute, the join drops the configured project root:
  \<^verbatim>\<open>read_file\<close>, \<^verbatim>\<open>write_file\<close> and \<^verbatim>\<open>list_directory\<close> ask the file system about that path
  itself, so their reach is not confined to the project tree.
\<close>

theorem absolute_path_discards_root:
  assumes "PROJECT_PATH env = Some root" and "startswith_sep p"
  shows "os_path_join (PROJECT_PATH env) p = Inr p
    \<and> read_file env p =
        Returns (case fs_read env p of
                   Inl e \<Rightarrow> ''Error reading file '' @ p @ '': '' @ exn_str e
                 | Inr content \<Rightarrow> content)
    \<and> write_file env p content =
        Returns (case fs_makedirs env (dirname p) of
                   Some e \<Rightarrow> ''Error writing to file '' @ p @ '': '' @ exn_str e
                 | None \<Rightarrow>
                     (case fs_write env p content of
                        Some e \<Rightarrow> ''Error writing to file '' @ p @ '': '' @ exn_str e
                      | None \<Rightarrow> ''Successfully wrote to '' @ p @ ''.''))
    \<and> list_directory env p =
        Returns (case fs_listdir env p of
                   Inl e \<Rightarrow> ''Error listing directory '' @ p @ '': '' @ exn_str e
                 | Inr files \<Rightarrow> join_lines files)"
  using assms
  by (simp add: os_path_join_absolute read_file_def write_file_def list_directory_def
      split: sum.splits option.splits)

theorem absolute_path_discards_root_witness:
  "PROJECT_PATH site_env = Some ''/home/dev/site'' \<and> startswith_sep ''/etc/hostname''
   \<and> \<not> prefix ''/home/dev/site'' ''/etc/hostname''
   \<and> read_file site_env ''/etc/hostname'' = Returns ''build-01''
   \<and> write_file site_env ''/etc/hostname'' ''pwned'' = Returns ''Successfully wrote to /etc/hostname.''
   \<and> list_directory site_env ''/etc/hostname'' =
       Returns (''Error listing directory /etc/hostname: [Errno 2] No such file or directory: /etc/hostname'')"
proof -
  have a: "PROJECT_PATH site_env = Some ''/home/dev/site''" by (simp add: site_env_def)
  have b: "startswith_sep ''/etc/hostname''" by (simp add: startswith_sep_def)
  show ?thesis
    using a b absolute_path_discards_root [OF a b, of "''pwned''"]
    by (simp add: site_env_def dirname_def no_such_file_def)
qed

section \<open>The tools: what comes back\<close>


lemma write_file_returns: "\<exists>s. write_file env p content = Returns s"
  by (simp add: write_file_def split: sum.splits option.splits)


text \<open>
  C4. Every tool returns a result and never raises across the agent boundary. The shell
  tool does not: its handler names \<^verbatim>\<open>CalledProcessError\<close> only, where the three file
  tools catch \<^verbatim>\<open>Exception\<close>. Here a command whose output is not text makes
  \<^verbatim>\<open>subprocess.run\<close> raise \<^verbatim>\<open>UnicodeDecodeError\<close>, and the tool lets it through.
\<close>

theorem run_shell_command_raises:
  "run_shell_command site_env ''cat public/img/logo.png''
     = Raises (Exception ''UnicodeDecodeError'' ''invalid start byte'')"
  by (simp add: run_shell_command_def subprocess_run_def site_env_def)

text \<open>
  C5, as the claim states it, fails: the call passes no \<^verbatim>\<open>timeout\<close>, so a command that
  never exits keeps the tool, and with it the loop, waiting.
\<close>

theorem hanging_command_blocks: "run_shell_command site_env ''npm run dev'' = Blocks"
  by (simp add: run_shell_command_def subprocess_run_def site_env_def)

text \<open>
  C5, amended. With \<^verbatim>\<open>PROJECT_PATH\<close> set, the command runs with the project root as its
  working directory and without a timeout: the tool returns when the command exits,
  however long it takes, a non-zero exit status as an ordinary result string; it waits
  for ever on a command that never exits.
\<close>

theorem run_shell_command_in_project_root:
  assumes "PROJECT_PATH env = Some root" and "root \<noteq> []"
  shows "run_shell_command env c =
     (case shell env c root of
        Exits d rc out err \<Rightarrow>
          Returns (if rc = 0 then success_header @ out else failure_report rc err out)
      | Never_exits \<Rightarrow> Blocks
      | Cannot_run e \<Rightarrow> Raises e)"
  using assms
  by (simp add: run_shell_command_def subprocess_run_def completed_def split: process.splits)

theorem run_shell_command_in_project_root_witness:
  "PROJECT_PATH site_env = Some ''/home/dev/site'' \<and> ''/home/dev/site'' \<noteq> []
   \<and> shell site_env ''npm test'' ''/home/dev/site'' = Exits 1 127 [] ''sh: 1: command not found''
   \<and> run_shell_command site_env ''npm test'' =
       Returns (''Command failed with exit code 127. Stderr:'' @ newline
                @ ''sh: 1: command not found'' @ newline @ ''Stdout:'' @ newline)"
proof -
  have a: "PROJECT_PATH site_env = Some ''/home/dev/site''" by (simp add: site_env_def)
  have b: "''/home/dev/site'' \<noteq> []" by simp
  have c: "shell site_env ''npm test'' ''/home/dev/site'' = Exits 1 127 [] ''sh: 1: command not found''"
    by (simp add: site_env_def)
  have d: "str_int 127 = ''127''"
    by (simp add: str_int_def str_nat.simps digit_char_def)
  show ?thesis
    using a c d run_shell_command_in_project_root [OF a b, of "''npm test''"]
    by (simp add: failure_report_def)
qed

section \<open>The validation gate\<close>

lemma reports_pass_success: "reports_pass (Returns (success_header @ out))"
  by (simp add: reports_pass_def success_header_def)

lemma reports_pass_failure: "\<not> reports_pass (Returns (failure_report rc err out))"
  by (simp add: reports_pass_def failure_report_def)

lemma reports_fail_failure: "reports_fail (Returns (failure_report rc err out))"
  by (simp add: reports_fail_def failure_report_def)

lemma reports_fail_success: "\<not> reports_fail (Returns (success_header @ out))"
  by (simp add: reports_fail_def success_header_def)

lemma validate_exits:
  assumes "PROJECT_PATH env = Some root" and "root \<noteq> []"
    and "shell env ''npx tsc --noEmit'' root = Exits d rc out err"
  shows "validate_typescript_code env =
    Returns (if rc = 0 then success_header @ out else failure_report rc err out)"
  using assms
  by (simp add: validate_typescript_code_def run_shell_command_def subprocess_run_def
      completed_def)

text \<open>
  C3, as the claim states it, fails: the type checker exits with status 0 after printing
  a diagnostic line, and the result is the success report, not a failure.
\<close>

theorem validate_passes_despite_output:
  "shell site_env ''npx tsc --noEmit'' ''/home/dev/site'' = Exits 4 0 ''src/app/page.tsx: note'' []
   \<and> ''src/app/page.tsx: note'' \<noteq> []
   \<and> validate_typescript_code site_env =
        Returns (''Command executed successfully. Output:'' @ newline @ ''src/app/page.tsx: note'')
   \<and> reports_pass (validate_typescript_code site_env)
   \<and> \<not> reports_fail (validate_typescript_code site_env)"
  by (simp add: validate_typescript_code_def run_shell_command_def subprocess_run_def
      completed_def site_env_def success_header_def reports_pass_def reports_fail_def newline_def)

text \<open>
  C3, amended. When the type checker runs and exits, the validation reports pass if and
  only if the exit status is zero; the output is not inspected. The success report carries
  the raw standard output after its header, so it is the bare header exactly when the
  exit status is zero and that output is empty; a non-zero exit is reported as a failure
  with the exit status and the raw text of both streams.
\<close>

theorem validate_pass_iff_zero_exit:
  assumes "PROJECT_PATH env = Some root" and "root \<noteq> []"
    and "shell env ''npx tsc --noEmit'' root = Exits d rc out err"
  shows "(reports_pass (validate_typescript_code env) \<longleftrightarrow> rc = 0)
    \<and> (reports_fail (validate_typescript_code env) \<longleftrightarrow> rc \<noteq> 0)
    \<and> validate_typescript_code env =
        (if rc = 0 then Returns (success_header @ out) else Returns (failure_report rc err out))
    \<and> (validate_typescript_code env = Returns success_header \<longleftrightarrow> rc = 0 \<and> out = [])"
proof -
  have r: "validate_typescript_code env =
    Returns (if rc = 0 then success_header @ out else failure_report rc err out)"
    by (rule validate_exits [OF assms])
  have ne: "failure_report rc err out \<noteq> success_header"
    using reports_pass_failure [of rc err out] reports_pass_success [of "[]"] by auto
  show ?thesis
    using ne by (simp add: r reports_pass_success reports_pass_failure
        reports_fail_failure reports_fail_success)
qed

theorem validate_pass_iff_zero_exit_witness:
  "PROJECT_PATH site_env = Some ''/home/dev/site'' \<and> ''/home/dev/site'' \<noteq> []
   \<and> shell site_env ''npx tsc --noEmit'' ''/home/dev/site'' = Exits 4 0 ''src/app/page.tsx: note'' []
   \<and> reports_pass (validate_typescript_code site_env)
   \<and> validate_typescript_code site_env \<noteq> Returns success_header"
proof -
  have a: "PROJECT_PATH site_env = Some ''/home/dev/site''" by (simp add: site_env_def)
  have b: "''/home/dev/site'' \<noteq> []" by simp
  have c: "shell site_env ''npx tsc --noEmit'' ''/home/dev/site''
    = Exits 4 0 ''src/app/page.tsx: note'' []"
    by (simp add: site_env_def)
  show ?thesis
    using a c validate_pass_iff_zero_exit [OF a b c] by (simp add: reports_pass_success)
qed

section \<open>Startup\<close>

text \<open>
  C10. With \<^verbatim>\<open>PROJECT_PATH\<close> and the API key set and \<^verbatim>\<open>SCHEMA_JSON_PATH\<close> unset, startup
  raises a \<^verbatim>\<open>TypeError\<close> that nothing catches when it builds the schema path: it neither
  takes the guarded configuration-error exit nor reaches the point after which the index is
  built and the loop runs.
\<close>

theorem unset_schema_path_raises:
  assumes "truthy (getenv ''PROJECT_PATH'')" and "truthy (getenv ''GEMINI_API_KEY'')"
    and "getenv ''SCHEMA_JSON_PATH'' = None"
  shows "main_startup getenv = Uncaught fspath_TypeError
    \<and> exn_class fspath_TypeError = ''TypeError''
    \<and> main_startup getenv \<noteq> Configuration_error_exit
    \<and> (\<forall>p s. main_startup getenv \<noteq> Configured p s)"
  using assms
  by (auto simp: main_startup_def truthy_def pathlib_Path_def fspath_TypeError_def Let_def
      split: option.splits)

theorem unset_schema_path_raises_witness:
  "truthy (site_environ ''PROJECT_PATH'') \<and> truthy (site_environ ''GEMINI_API_KEY'')
   \<and> site_environ ''SCHEMA_JSON_PATH'' = None
   \<and> main_startup site_environ = Uncaught fspath_TypeError"
proof -
  have a: "truthy (site_environ ''PROJECT_PATH'')" by (simp add: site_environ_def truthy_def)
  have b: "truthy (site_environ ''GEMINI_API_KEY'')" by (simp add: site_environ_def truthy_def)
  have c: "site_environ ''SCHEMA_JSON_PATH'' = None" by (simp add: site_environ_def)
  show ?thesis
    using a b c unset_schema_path_raises [OF a b c] by simp
qed

section \<open>The code indexer: what the scan finds\<close>

text \<open>
  A pattern of one star and literal characters matches the names that end in those
  characters. The pattern of the source is such a pattern, its braces being literal.
\<close>

lemma fnmatch_literal: "wildcard_free pat \<Longrightarrow> fnmatch s pat = (s = pat)"
proof (induction s pat rule: fnmatch.induct)
  case 1
  then show ?case by simp
next
  case (2 c cs)
  then show ?case by simp
next
  case (3 p ps)
  then show ?case by (auto simp: wildcard_free_def)
next
  case (4 c cs p ps)
  then show ?case by (auto simp: wildcard_free_def)
qed

lemma fnmatch_star_literal:
  "wildcard_free lit \<Longrightarrow> fnmatch s (CHR ''*'' # lit) = suffix lit s"
proof (induction s)
  case Nil
  then show ?case by (auto simp: fnmatch_literal)
next
  case (Cons c cs)
  then show ?case by (auto simp: fnmatch_literal suffix_Cons)
qed

lemma brace_pattern: "fnmatch name ''*.{ts,tsx}'' = suffix ''.{ts,tsx}'' name"
  by (rule fnmatch_star_literal) (simp add: wildcard_free_def)

lemma typescript_name_not_matched:
  assumes "suffix ''.ts'' name \<or> suffix ''.tsx'' name"
  shows "\<not> fnmatch name ''*.{ts,tsx}''"
proof
  assume "fnmatch name ''*.{ts,tsx}''"
  then have "suffix ''.{ts,tsx}'' name" by (simp add: brace_pattern)
  then obtain a where a: "name = a @ ''.{ts,tsx}''" by (auto simp: suffix_def)
  from assms obtain b where "name = b @ ''.ts'' \<or> name = b @ ''.tsx''" by (auto simp: suffix_def)
  with a have "last (a @ ''.{ts,tsx}'') = last (b @ ''.ts'') \<or> last (a @ ''.{ts,tsx}'') = last (b @ ''.tsx'')"
    by auto
  then show False by simp
qed

lemma glob_parts_source:
  "glob_parts [''**'', ''*.{ts,tsx}''] rel = (rel \<noteq> [] \<and> suffix ''.{ts,tsx}'' (last rel))"
proof (induction rel)
  case Nil
  then show ?case by simp
next
  case (Cons x xs)
  show ?case
  proof (cases xs)
    case Nil
    then show ?thesis by (simp add: brace_pattern)
  next
    case (Cons y ys)
    with Cons.IH show ?thesis by (simp add: brace_pattern)
  qed
qed

lemma load_file_Some:
  "load_file root ''**/*.{ts,tsx}'' item = Some d \<Longrightarrow>
     fst item \<noteq> [] \<and> suffix ''.{ts,tsx}'' (last (fst item)) \<and> source d = root @ fst item"
  by (auto simp: load_file_def glob_parts_source split: option.splits if_splits)

lemma scan_sources:
  assumes "d \<in> set (scan root files)"
  shows "\<exists>rel content. (rel, Some content) \<in> set files \<and> source d = root @ rel
     \<and> rel \<noteq> [] \<and> suffix ''.{ts,tsx}'' (last rel) \<and> ''node_modules'' \<notin> set (root @ rel)"
proof -
  from assms obtain item where i: "item \<in> set files"
    and l: "load_file root ''**/*.{ts,tsx}'' item = Some d"
    and n: "''node_modules'' \<notin> set (source d)"
    by (auto simp: scan_def DirectoryLoader_load_def List.map_filter_def)
  from l obtain content where c: "snd item = Some content"
    by (auto simp: load_file_def split: option.splits)
  from load_file_Some [OF l] n i c show ?thesis
    by (cases item) auto
qed

text \<open>
  C7. Indexing finds every \<^verbatim>\<open>.ts\<close> and \<^verbatim>\<open>.tsx\<close> file under the root outside
  \<^verbatim>\<open>node_modules\<close>, and each contributes chunks. The code does not: its pattern
  \<^verbatim>\<open>**/*.{ts,tsx}\<close> is given to \<^verbatim>\<open>pathlib\<close>, which matches the braces literally (lemma
  \<open>typescript_name_not_matched\<close>), so on the project's tree the scan finds no document and
  \<^verbatim>\<open>index_project\<close> returns after its warning, the store untouched.
\<close>

theorem index_project_misses_typescript_files:
  "scan site_root site_tree = []
   \<and> index_project from_documents split_text site_tree (CodeIndexer site_root persisted)
       = (CodeIndexer site_root persisted, [Indexing_from site_root, No_documents_warning])"
proof -
  have s: "scan site_root site_tree = []"
    by (simp add: scan_def DirectoryLoader_load_def load_file_def site_tree_def
        List.map_filter_simps)
  show ?thesis
    by (simp add: s index_project_def CodeIndexer_def)
qed

section \<open>The code indexer: the store\<close>

text \<open>
  C6, as the claim states it, fails: a first run persists a chunk; the file is then
  removed and the index is run again; the scan is empty, and the chunk of the first run
  is still in the store, even under a store constructor that keeps new chunks only.
\<close>

theorem reindex_keeps_old_chunks:
  "scan site_root [] = []
   \<and> index_run replacing whole_text site_root brace_tree [] = [legacy_chunk]
   \<and> index_run replacing whole_text site_root []
        (index_run replacing whole_text site_root brace_tree []) = [legacy_chunk]"
proof -
  have a: "scan site_root [] = []"
    by (simp add: scan_def DirectoryLoader_load_def List.map_filter_simps)
  have b: "scan site_root brace_tree
    = [\<lparr>source = site_root @ [''legacy.{ts,tsx}''], page_content = ''export const a = 1''\<rparr>]"
    by (simp add: scan_def DirectoryLoader_load_def load_file_def brace_tree_def
        List.map_filter_simps is_visible_def site_root_def)
  show ?thesis
    by (simp add: a b index_run_def index_project_def CodeIndexer_def replacing_def
        whole_text_def split_documents_def legacy_chunk_def)
qed

text \<open>
  C6, amended. Re-running the index does not itself clear the persisted store. When the
  scan finds no matching file, the store is left exactly as the previous run persisted it;
  when it finds some, the chunks of the current scan, and no others, are handed to
  \<^verbatim>\<open>Chroma.from_documents\<close> on the same directory, and the store is what that call makes of
  them and of the collection already persisted there.
\<close>

theorem index_run_store:
  "index_run from_documents split_text root files persisted =
     (if scan root files = [] then persisted
      else from_documents (split_documents split_text (scan root files)) persisted)"
  by (simp add: index_run_def index_project_def CodeIndexer_def Let_def)

lemma scan_nothing: "scan root [] = []"
  by (simp add: scan_def DirectoryLoader_load_def List.map_filter_simps)

text \<open>
  C8, as the claim states it, fails: the scan finds nothing, yet the store the indexer
  opened held a chunk of an earlier run, still holds it afterwards, and retrieval returns
  it.
\<close>

theorem empty_scan_keeps_stale_store:
  "scan site_root [] = []
   \<and> vector_store (fst (index_project replacing whole_text [] (CodeIndexer site_root [legacy_chunk])))
       = [legacy_chunk]
   \<and> get_retriever flat_distance
        (fst (index_project replacing whole_text [] (CodeIndexer site_root [legacy_chunk])))
        ''header component'' = [legacy_chunk]"
  by (simp add: scan_nothing index_project_def CodeIndexer_def get_retriever_def retrieve_def)

text \<open>
  C8, amended. When the scan finds no matching file, \<^verbatim>\<open>index_project\<close> leaves the store
  as it was, empty only if nothing had been persisted before, prints its warning and
  returns normally; every retrieval afterwards is answered from that unchanged store, and
  on an empty store it returns the empty list.
\<close>

theorem empty_scan_leaves_store:
  assumes "scan (project_path self) files = []"
  shows "index_project from_documents split_text files self
           = (self, [Indexing_from (project_path self), No_documents_warning])
    \<and> get_retriever distance (fst (index_project from_documents split_text files self)) query
           = retrieve distance (vector_store self) query 5
    \<and> (vector_store self = [] \<longrightarrow>
         get_retriever distance (fst (index_project from_documents split_text files self)) query
           = [])"
  using assms by (simp add: index_project_def get_retriever_def retrieve_def)

theorem empty_scan_leaves_store_witness:
  "scan (project_path (CodeIndexer site_root [])) site_tree = []
   \<and> vector_store (CodeIndexer site_root []) = []
   \<and> index_project replacing whole_text site_tree (CodeIndexer site_root [])
       = (CodeIndexer site_root [], [Indexing_from site_root, No_documents_warning])
   \<and> get_retriever flat_distance
        (fst (index_project replacing whole_text site_tree (CodeIndexer site_root [])))
        ''header component'' = []"
proof -
  have a: "scan (project_path (CodeIndexer site_root [])) site_tree = []"
    by (simp add: scan_def DirectoryLoader_load_def load_file_def site_tree_def
        List.map_filter_simps CodeIndexer_def)
  have b: "vector_store (CodeIndexer site_root []) = []" by (simp add: CodeIndexer_def)
  show ?thesis
    using a b empty_scan_leaves_store [OF a, of replacing whole_text flat_distance "''header component''"]
    by (auto simp: CodeIndexer_def)
qed

section \<open>The agent loop: one iteration\<close>

lemma run_halted_state: "halted (phase s) \<Longrightarrow> run cfg policy tools s = Some s"
  by (simp add: run.simps [of cfg policy tools s])

lemma run_step:
  "\<not> halted (phase s) \<Longrightarrow> step cfg policy tools s = Some s' \<Longrightarrow>
     run cfg policy tools s = run cfg policy tools s'"
  by (simp add: run.simps [of cfg policy tools s])


lemma malformed_planning_step:
  assumes "policy ts = Malformed txt"
  shows "step agent_executor policy tools \<lparr>phase = PLANNING, transcript = ts\<rparr>
    = Some \<lparr>phase = OBSERVING (''_Exception'', txt, corrective_observation), transcript = ts\<rparr>"
  using assms by (simp add: step_def agent_executor_def)

lemma observing_step:
  "step agent_executor policy tools \<lparr>phase = OBSERVING e, transcript = ts\<rparr>
    = Some \<lparr>phase = (if Suc (length ts) < 15000 then PLANNING else DONE Partial_completion),
            transcript = ts @ [e]\<rparr>"
  by (simp add: step_def agent_executor_def)

lemma malformed_run:
  assumes "policy ts = Malformed txt"
  shows "run agent_executor policy tools \<lparr>phase = PLANNING, transcript = ts\<rparr>
    = run agent_executor policy tools
        \<lparr>phase = (if Suc (length ts) < 15000 then PLANNING else DONE Partial_completion),
         transcript = ts @ [(''_Exception'', txt, corrective_observation)]\<rparr>"
proof -
  let ?e = "(''_Exception'', txt, corrective_observation)"
  have "run agent_executor policy tools \<lparr>phase = PLANNING, transcript = ts\<rparr>
    = run agent_executor policy tools \<lparr>phase = OBSERVING ?e, transcript = ts\<rparr>"
    by (rule run_step) (simp_all add: malformed_planning_step [where policy = policy and ts = ts, OF assms])
  also have "\<dots> = run agent_executor policy tools
        \<lparr>phase = (if Suc (length ts) < 15000 then PLANNING else DONE Partial_completion),
         transcript = ts @ [?e]\<rparr>"
    by (rule run_step) (simp_all add: observing_step)
  finally show ?thesis .
qed

text \<open>
  C1, amended. Policy output that does not parse is no \<open>ERROR\<close> transition: from
  \<open>PLANNING\<close> the machine moves to \<open>OBSERVING\<close> with the corrective observation, appends
  it to the transcript and goes back to \<open>PLANNING\<close> for the next iteration, unless that
  observation is the 15000th entry; the run then ends in \<open>DONE\<close> as a recorded partial
  completion.
\<close>

theorem malformed_output_is_observed:
  assumes "policy ts = Malformed txt"
  shows "step agent_executor policy tools \<lparr>phase = PLANNING, transcript = ts\<rparr>
           = Some \<lparr>phase = OBSERVING (''_Exception'', txt, corrective_observation), transcript = ts\<rparr>
    \<and> step agent_executor policy tools
          \<lparr>phase = OBSERVING (''_Exception'', txt, corrective_observation), transcript = ts\<rparr>
           = Some \<lparr>phase = (if Suc (length ts) < 15000 then PLANNING else DONE Partial_completion),
                   transcript = ts @ [(''_Exception'', txt, corrective_observation)]\<rparr>
    \<and> run agent_executor policy tools \<lparr>phase = PLANNING, transcript = ts\<rparr>
           = run agent_executor policy tools
               \<lparr>phase = (if Suc (length ts) < 15000 then PLANNING else DONE Partial_completion),
                transcript = ts @ [(''_Exception'', txt, corrective_observation)]\<rparr>"
  using malformed_planning_step [where policy = policy and ts = ts, OF assms] observing_step
    malformed_run [where policy = policy and ts = ts, OF assms]
  by simp

theorem malformed_output_is_observed_witness:
  "retry_policy [] = Malformed ''I will read the schema first.''
   \<and> invoke agent_executor retry_policy no_tools
       = Some \<lparr>phase = DONE (Final_output ''The mission is accomplished.''),
          transcript = [(''_Exception'', ''I will read the schema first.'', corrective_observation)]\<rparr>"
proof -
  have a: "retry_policy [] = Malformed ''I will read the schema first.''"
    by (simp add: retry_policy_def)
  let ?s = "\<lparr>phase = PLANNING,
     transcript = [(''_Exception'', ''I will read the schema first.'', corrective_observation)]\<rparr>"
  let ?d = "?s\<lparr>phase := DONE (Final_output ''The mission is accomplished.'')\<rparr>"
  have "run agent_executor retry_policy no_tools ?s = run agent_executor retry_policy no_tools ?d"
    by (rule run_step) (simp_all add: step_def retry_policy_def)
  also have "\<dots> = Some ?d"
    by (rule run_halted_state) simp
  finally have b: "run agent_executor retry_policy no_tools ?s = Some ?d" .
  show ?thesis
    using a b malformed_output_is_observed [where policy = retry_policy and ts = "[]" and tools = no_tools, OF a]
    by (simp add: invoke_def)
qed

text \<open>
  C1, as the claim states it, fails: a policy that never gives an answer that parses is
  given its corrective observation 14999 times; its next malformed payload does not lead
  to a further iteration, the run ends.
\<close>

lemma babble_run:
  "n < 15000 \<Longrightarrow> d = 15000 - n \<Longrightarrow>
     run agent_executor babbling_policy tools \<lparr>phase = PLANNING, transcript = replicate n babble\<rparr>
       = Some \<lparr>phase = DONE Partial_completion, transcript = replicate 15000 babble\<rparr>"
proof (induction d arbitrary: n)
  case 0
  then show ?case by simp
next
  case (Suc d)
  have m: "babbling_policy (replicate n babble) = Malformed ''Let me think.''"
    by (simp add: babbling_policy_def)
  have r: "replicate n babble @ [(''_Exception'', ''Let me think.'', corrective_observation)]
      = replicate (Suc n) babble"
    by (simp add: babble_def replicate_append_same)
  note step = malformed_run [where policy = babbling_policy and ts = "replicate n babble"
      and tools = tools, OF m, unfolded r length_replicate]
  show ?case
  proof (cases "Suc n < 15000")
    case True
    with Suc.prems have "d = 15000 - Suc n" by simp
    from Suc.IH [OF True this] step True show ?thesis by simp
  next
    case False
    with Suc.prems have n: "Suc n = 15000" by simp
    have "run agent_executor babbling_policy tools
        \<lparr>phase = DONE Partial_completion, transcript = replicate (Suc n) babble\<rparr>
      = Some \<lparr>phase = DONE Partial_completion, transcript = replicate (Suc n) babble\<rparr>"
      by (rule run_halted_state) simp
    with step False n show ?thesis by simp
  qed
qed

theorem malformed_output_at_budget_ends_run:
  "babbling_policy (replicate 14999 babble) = Malformed ''Let me think.''
   \<and> run agent_executor babbling_policy no_tools
        \<lparr>phase = PLANNING, transcript = replicate 14999 babble\<rparr>
       = Some \<lparr>phase = DONE Partial_completion, transcript = replicate 15000 babble\<rparr>
   \<and> invoke agent_executor babbling_policy no_tools
       = Some \<lparr>phase = DONE Partial_completion, transcript = replicate 15000 babble\<rparr>"
proof -
  have a: "babbling_policy (replicate 14999 babble) = Malformed ''Let me think.''"
    by (simp add: babbling_policy_def)
  have b: "run agent_executor babbling_policy no_tools
        \<lparr>phase = PLANNING, transcript = replicate 14999 babble\<rparr>
       = Some \<lparr>phase = DONE Partial_completion, transcript = replicate 15000 babble\<rparr>"
    by (rule babble_run [of 14999 1]) simp_all
  have c: "run agent_executor babbling_policy no_tools
        \<lparr>phase = PLANNING, transcript = replicate 0 babble\<rparr>
       = Some \<lparr>phase = DONE Partial_completion, transcript = replicate 15000 babble\<rparr>"
    by (rule babble_run [of 0 15000]) simp_all
  from a b c show ?thesis by (simp add: invoke_def)
qed

section \<open>The agent loop: termination\<close>








end
